theory Spec2Isabelle
  imports Complex_Main "HOL-Library.AList" "HOL-Library.Sublist"
begin

section \<open>Python values\<close>

text \<open>
  The repository is dynamically typed Python: headers, payloads and the body of the
  token-exchange response are JSON-like values. \<open>pyval\<close> is the universe of those values.
  A \<open>dict\<close> is an association list in insertion order (Python dictionaries keep it); a
  well-formed dictionary has distinct keys. A Python \<open>float\<close> is represented by the real
  number it denotes: only order, sum and the test against zero are used.
\<close>

datatype pyval =
    PNone
  | PBool bool
  | PInt int
  | PFloat real
  | PStr string
  | PList "pyval list"
  | PDict "(string \<times> pyval) list"

type_synonym pydict = "(string \<times> pyval) list"

text \<open>Python truthiness (\<open>not x\<close> is \<open>\<not> truthy x\<close>).\<close>

fun truthy :: "pyval \<Rightarrow> bool" where
  "truthy PNone = False"
| "truthy (PBool b) = b"
| "truthy (PInt n) = (n \<noteq> 0)"
| "truthy (PFloat x) = (x \<noteq> 0)"
| "truthy (PStr s) = (s \<noteq> [])"
| "truthy (PList xs) = (xs \<noteq> [])"
| "truthy (PDict items) = (items \<noteq> [])"

text \<open>Truthiness of an \<open>Optional[dict]\<close>, an \<open>Optional[str]\<close> and an optional float.\<close>

definition truthy_dict :: "pydict option \<Rightarrow> bool" where
  "truthy_dict d = (case d of None \<Rightarrow> False | Some items \<Rightarrow> items \<noteq> [])"

definition truthy_str :: "string option \<Rightarrow> bool" where
  "truthy_str s = (case s of None \<Rightarrow> False | Some cs \<Rightarrow> cs \<noteq> [])"

definition truthy_float :: "real option \<Rightarrow> bool" where
  "truthy_float x = (case x of None \<Rightarrow> False | Some r \<Rightarrow> r \<noteq> 0)"

definition opt_to_val :: "pydict option \<Rightarrow> pyval" where
  "opt_to_val d = (case d of None \<Rightarrow> PNone | Some items \<Rightarrow> PDict items)"

definition items_of :: "pydict option \<Rightarrow> pydict" where
  "items_of d = (case d of None \<Rightarrow> [] | Some items \<Rightarrow> items)"

definition str_of_opt :: "string option \<Rightarrow> string" where
  "str_of_opt s = (case s of None \<Rightarrow> [] | Some cs \<Rightarrow> cs)"

definition is_dict :: "pyval \<Rightarrow> bool" where
  "is_dict v = (case v of PDict _ \<Rightarrow> True | _ \<Rightarrow> False)"

text \<open>\<open>str(n)\<close> for a Python integer.\<close>

definition digit_char :: "nat \<Rightarrow> char" where
  "digit_char n = ''0123456789'' ! n"

function str_nat :: "nat \<Rightarrow> string" where
  "str_nat n = (if n < 10 then [digit_char n] else str_nat (n div 10) @ [digit_char (n mod 10)])"
  by pat_completeness auto
termination
  by (relation "measure id") auto

definition str_int :: "int \<Rightarrow> string" where
  "str_int i = (if i < 0 then CHR ''-'' # str_nat (nat (- i)) else str_nat (nat i))"

section \<open>gcode\_utils.deep\_merge\<close>

text \<open>
  \<^verbatim>\<open>
  def deep_merge(dict1, dict2):
      if not dict1 and not dict2: return None
      if not dict1: return dict2
      if not dict2: return dict1
      merged = dict1.copy()
      for key, value in dict2.items():
          if key in merged and isinstance(merged[key], dict) and isinstance(value, dict):
              merged[key] = deep_merge(merged[key], value)
          else:
              merged[key] = value
      return merged
  \<close>
  \<open>merge_items merged items\<close> is the \<open>for\<close> loop over the remaining items of \<open>dict2\<close>;
  \<open>merged[key] = v\<close> is \<open>AList.update\<close>, which overwrites in place or appends a new key.
\<close>

fun deep_merge :: "pydict option \<Rightarrow> pydict option \<Rightarrow> pydict option"
and merge_items :: "pydict \<Rightarrow> pydict \<Rightarrow> pydict"
where
  "deep_merge dict1 dict2 =
     (if \<not> truthy_dict dict1 \<and> \<not> truthy_dict dict2 then None
      else if \<not> truthy_dict dict1 then dict2
      else if \<not> truthy_dict dict2 then dict1
      else (case (dict1, dict2) of
              (Some d1, Some d2) \<Rightarrow> Some (merge_items d1 d2)
            | _ \<Rightarrow> None))"
| "merge_items merged [] = merged"
| "merge_items merged ((key, val) # rest) =
     merge_items
       (case (map_of merged key, val) of
          (Some (PDict a), PDict b) \<Rightarrow>
             AList.update key (opt_to_val (deep_merge (Some a) (Some b))) merged
        | _ \<Rightarrow> AList.update key val merged)
       rest"

section \<open>The environment: clock, transport, TLS library\<close>

datatype error =
    Exception string
  | ExceptionArgs string pyval
  | TypeError string
  | ValueError string
  | KeyError string
  | OverflowError
  | JSONDecodeError
  | TransportError
  | SSLError

datatype http_method = GET | POST

record call =
  verb :: http_method
  url :: string
  hdrs :: "pydict option"
  data :: "pydict option"
  query :: "pydict option"

record response =
  status_code :: int
  json_body :: "pyval option"

text \<open>
  What the program observes of the outside world: the outbound calls made so far, the
  number of \<open>time.time()\<close> readings taken and the number of TLS contexts created.
\<close>

record world =
  calls :: "call list"
  clock_reads :: nat
  tls_contexts :: nat

text \<open>
  The external collaborators, as parameters: the system clock (its n-th reading), the
  \<open>requests\<close> session machinery (the outcome of a call, given the calls before it), OpenSSL's
  verdict on a cipher string, the interpreter's \<open>repr\<close> of a non-string object, the
  case-insensitive \<open>update\<close> of the session's header dictionary together with its
  library defaults, and the rounding of a real number to the nearest double.
\<close>

record env =
  clock :: "nat \<Rightarrow> real"
  transport :: "call list \<Rightarrow> call \<Rightarrow> error + response"
  set_ciphers_ok :: "string \<Rightarrow> bool"
  repr_obj :: "pyval \<Rightarrow> string"
  headers_update :: "pydict \<Rightarrow> pydict \<Rightarrow> pydict"
  library_headers :: pydict
  round_double :: "real \<Rightarrow> real"

definition time_time :: "env \<Rightarrow> world \<Rightarrow> real \<times> world" where
  "time_time ev w = (clock ev (clock_reads w), w\<lparr>clock_reads := Suc (clock_reads w)\<rparr>)"

definition session_send :: "env \<Rightarrow> world \<Rightarrow> call \<Rightarrow> (error + response) \<times> world" where
  "session_send ev w c = (transport ev (calls w) c, w\<lparr>calls := calls w @ [c]\<rparr>)"

definition response_json :: "response \<Rightarrow> error + pyval" where
  "response_json r = (case json_body r of None \<Rightarrow> Inl JSONDecodeError | Some v \<Rightarrow> Inr v)"

text \<open>
  \<open>str(v)\<close> and \<open>repr(v)\<close> as used by the f-strings of the source. The two differ on
  strings only; what the interpreter prints for floats, lists and dictionaries, and the
  quoting of a string by \<open>repr\<close>, is the parameter \<open>repr_obj\<close>.
\<close>

fun py_str :: "env \<Rightarrow> pyval \<Rightarrow> string" where
  "py_str ev (PStr s) = s"
| "py_str ev PNone = ''None''"
| "py_str ev (PBool b) = (if b then ''True'' else ''False'')"
| "py_str ev (PInt n) = str_int n"
| "py_str ev v = repr_obj ev v"

definition py_repr :: "env \<Rightarrow> pyval \<Rightarrow> string" where
  "py_repr ev v = (case v of PStr _ \<Rightarrow> repr_obj ev v | _ \<Rightarrow> py_str ev v)"

text \<open>
  \<open>key in v\<close> for a string key, and \<open>v[key]\<close>. A \<open>TypeError\<close> raised by the interpreter
  itself carries an empty message here.
\<close>

fun py_contains :: "string \<Rightarrow> pyval \<Rightarrow> error + bool" where
  "py_contains k (PDict items) = Inr (k \<in> fst ` set items)"
| "py_contains k (PList xs) = Inr (PStr k \<in> set xs)"
| "py_contains k (PStr s) = Inr (sublist k s)"
| "py_contains k v = Inl (TypeError [])"

fun py_getitem :: "pyval \<Rightarrow> string \<Rightarrow> error + pyval" where
  "py_getitem (PDict items) k =
     (case map_of items k of None \<Rightarrow> Inl (KeyError k) | Some v \<Rightarrow> Inr v)"
| "py_getitem v k = Inl (TypeError [])"

text \<open>
  \<open>time.time() + v\<close>: defined for numbers (a \<open>bool\<close> is an \<open>int\<close> in Python). An \<open>int\<close>
  operand is first converted to a double, which raises \<open>OverflowError\<close> when it rounds
  beyond the largest double, that is from \<open>2^1024 - 2^970\<close> on; the conversion and the
  sum are rounded to a double. \<open>PFloat\<close> and the clock hold finite doubles: an infinite
  or NaN operand has no representation here.
\<close>

definition int_overflows_float :: "int \<Rightarrow> bool" where
  "int_overflows_float n = (2 ^ 1024 - 2 ^ 970 \<le> \<bar>n\<bar>)"

fun float_add :: "env \<Rightarrow> real \<Rightarrow> pyval \<Rightarrow> error + real" where
  "float_add ev t (PInt n) =
     (if int_overflows_float n then Inl OverflowError
      else Inr (round_double ev (t + round_double ev (of_int n))))"
| "float_add ev t (PFloat x) = Inr (round_double ev (t + x))"
| "float_add ev t (PBool b) = Inr (round_double ev (t + (if b then 1 else 0)))"
| "float_add ev t v = Inl (TypeError [])"

section \<open>SSLCiphers\<close>

record Retry =
  total :: int
  backoff_factor :: real
  status_forcelist :: "int list"

record ssl_context =
  check_hostname :: bool
  ciphers :: string

record SSLCiphers =
  ssl_ctx :: ssl_context
  max_retries :: "Retry option"

text \<open>\<open>isinstance(v, str)\<close>, \<open>isinstance(v, int)\<close> and \<open>v in range(6)\<close>.\<close>

definition is_str :: "pyval \<Rightarrow> bool" where
  "is_str v = (case v of PStr _ \<Rightarrow> True | _ \<Rightarrow> False)"

definition is_int :: "pyval \<Rightarrow> bool" where
  "is_int v = (case v of PInt _ \<Rightarrow> True | PBool _ \<Rightarrow> True | _ \<Rightarrow> False)"

definition in_range6 :: "pyval \<Rightarrow> bool" where
  "in_range6 v = (case v of PInt n \<Rightarrow> 0 \<le> n \<and> n < 6 | PBool _ \<Rightarrow> True | _ \<Rightarrow> False)"

text \<open>
  \<open>SSLCiphers.__init__(cipher_list, security_level, max_retries=...)\<close>. The four checks
  come first and in the order of the source; \<open>ssl.create_default_context()\<close> is counted
  in \<open>tls_contexts\<close>; \<open>ctx.set_ciphers\<close> raises when OpenSSL refuses the string.
\<close>

definition SSLCiphers_init ::
  "env \<Rightarrow> world \<Rightarrow> pyval \<Rightarrow> pyval \<Rightarrow> Retry option \<Rightarrow> (error + SSLCiphers) \<times> world" where
  "SSLCiphers_init ev w cipher_list security_level retries =
     (if truthy cipher_list \<and> \<not> is_str cipher_list then
        (Inl (TypeError (''Expected cipher_list to be a str, not '' @ py_repr ev cipher_list)), w)
      else if truthy cipher_list \<and> py_contains ''@SECLEVEL'' cipher_list = Inr True then
        (Inl (ValueError
           ''You must not specify the Security Level manually in the cipher list.''), w)
      else if \<not> is_int security_level then
        (Inl (TypeError
           (''Expected security_level to be an int, not '' @ py_repr ev security_level)), w)
      else if \<not> in_range6 security_level then
        (Inl (ValueError (''The security_level must be a value between 0 and 5, not ''
                          @ py_str ev security_level)), w)
      else
        (let cipher_list1 = (if \<not> truthy cipher_list then ''DEFAULT''
                             else py_str ev cipher_list);
             cipher_list2 = cipher_list1 @ '':@SECLEVEL='' @ py_str ev security_level;
             w1 = w\<lparr>tls_contexts := Suc (tls_contexts w)\<rparr>
         in if set_ciphers_ok ev cipher_list2 then
              (Inr \<lparr>ssl_ctx = \<lparr>check_hostname = False, ciphers = cipher_list2\<rparr>,
                    max_retries = retries\<rparr>, w1)
            else (Inl SSLError, w1)))"

section \<open>Auth\<close>

text \<open>
  The fields of class \<open>Auth\<close>. \<open>token\<close>, \<open>token_type\<close> and \<open>country\<close> hold whatever the
  exchange response carried, \<open>expiry\<close> is only ever assigned \<open>time.time() + ...\<close>, a number.
\<close>

record Auth =
  auth_base_api :: "string option"
  auth_endpoint :: "string option"
  auth_headers :: "pydict option"
  auth_payload :: "pydict option"
  token :: pyval
  expiry :: "real option"
  token_type :: pyval
  country :: pyval

definition Auth_init ::
  "string option \<Rightarrow> string option \<Rightarrow> pydict option \<Rightarrow> pydict option \<Rightarrow> Auth" where
  "Auth_init base_api endpoint headers payload =
     \<lparr>auth_base_api = base_api, auth_endpoint = endpoint, auth_headers = headers,
      auth_payload = payload, token = PNone, expiry = None, token_type = PNone,
      country = PNone\<rparr>"

text \<open>
  Lines 99 to 104 of \<open>Auth.auth\<close>: the four assignments from the parsed response, one
  after the other, each after the lookup that feeds it. The result carries the
  controller as it is when the lookup raises or the method returns.
\<close>

definition store_response :: "env \<Rightarrow> Auth \<Rightarrow> world \<Rightarrow> pyval \<Rightarrow> (error + pyval) \<times> Auth \<times> world" where
  "store_response ev a w response =
     (case py_getitem response ''access_token'' of
        Inl e \<Rightarrow> (Inl e, a, w)
      | Inr tok \<Rightarrow>
         (case time_time ev w of (now, w1) \<Rightarrow>
           (case py_getitem response ''expires_in'' of
              Inl e \<Rightarrow> (Inl e, a\<lparr>token := tok\<rparr>, w1)
            | Inr ttl \<Rightarrow>
               (case float_add ev now ttl of
                  Inl e \<Rightarrow> (Inl e, a\<lparr>token := tok\<rparr>, w1)
                | Inr ex \<Rightarrow>
                   (case py_getitem response ''token_type'' of
                      Inl e \<Rightarrow> (Inl e, a\<lparr>token := tok, expiry := Some ex\<rparr>, w1)
                    | Inr tt \<Rightarrow>
                       (case py_getitem response ''country'' of
                          Inl e \<Rightarrow>
                            (Inl e, a\<lparr>token := tok, expiry := Some ex, token_type := tt\<rparr>, w1)
                        | Inr co \<Rightarrow>
                            (Inr response,
                             a\<lparr>token := tok, expiry := Some ex, token_type := tt,
                               country := co\<rparr>, w1)))))))"

text \<open>The call of lines 90 to 93: \<open>session.post(base_api + endpoint, headers=..., data=...)\<close>.\<close>

definition token_request :: "Auth \<Rightarrow> pydict option \<Rightarrow> pydict option \<Rightarrow> call" where
  "token_request a headers payload =
     \<lparr>verb = POST,
      url = str_of_opt (auth_base_api a) @ str_of_opt (auth_endpoint a),
      hdrs = (if truthy_dict headers then headers else auth_headers a),
      data = (if truthy_dict payload then payload else auth_payload a),
      query = None\<rparr>"

text \<open>
  \<open>Auth.auth(session, headers=None, payload=None)\<close>: the two configuration checks, the
  POST and its \<open>.json()\<close>, the test for an \<open>error\<close> key, then the assignments.
\<close>

definition auth ::
  "env \<Rightarrow> Auth \<Rightarrow> world \<Rightarrow> pydict option \<Rightarrow> pydict option \<Rightarrow> (error + pyval) \<times> Auth \<times> world" where
  "auth ev a w headers payload =
     (if \<not> truthy_str (auth_base_api a) then
        (Inl (Exception ''Missing auth url base api''), a, w)
      else if \<not> truthy_str (auth_endpoint a) then
        (Inl (Exception ''Missing auth endpoint''), a, w)
      else
        (case session_send ev w (token_request a headers payload) of
           (Inl e, w1) \<Rightarrow> (Inl e, a, w1)
         | (Inr resp, w1) \<Rightarrow>
            (case response_json resp of
               Inl e \<Rightarrow> (Inl e, a, w1)
             | Inr response \<Rightarrow>
                (case py_contains ''error'' response of
                   Inl e \<Rightarrow> (Inl e, a, w1)
                 | Inr found \<Rightarrow>
                     (if found then
                        (Inl (ExceptionArgs ''An error occurred during auth'' response), a, w1)
                      else store_response ev a w1 response)))))"

text \<open>
  \<open>Auth.is_token_expired()\<close>: the clock is read only when both \<open>token\<close> and \<open>expiry\<close>
  are truthy.
\<close>

definition is_token_expired :: "env \<Rightarrow> Auth \<Rightarrow> world \<Rightarrow> bool \<times> world" where
  "is_token_expired ev a w =
     (if \<not> truthy (token a) \<or> \<not> truthy_float (expiry a) then (True, w)
      else (case time_time ev w of (now, w1) \<Rightarrow>
              (case expiry a of
                 None \<Rightarrow> (True, w1)
               | Some e \<Rightarrow> (\<not> e > now, w1))))"

definition get_auth :: "env \<Rightarrow> Auth \<Rightarrow> string" where
  "get_auth ev a = py_str ev (token_type a) @ '' '' @ py_str ev (token a)"

text \<open>The dictionary literal of line 170, \<open>{"Authorization": self.auth.get_auth()}\<close>.\<close>

definition authorization :: "env \<Rightarrow> Auth \<Rightarrow> pydict" where
  "authorization ev a = [(''Authorization'', PStr (get_auth ev a))]"

section \<open>Client\<close>

datatype adapter = HTTPAdapter | SSLCiphersAdapter SSLCiphers

record Session =
  cookies :: "(string \<times> string) list"
  adapters :: "(string \<times> adapter) list"
  proxies :: "(string \<times> string) list"
  session_headers :: pydict

record Client =
  client_base_api :: "string option"
  client_auth :: "Auth option"
  client_session :: Session

text \<open>\<open>requests.Session()\<close>: the two default adapters, no proxies, the library's headers.\<close>

definition Session_new :: "env \<Rightarrow> Session" where
  "Session_new ev =
     \<lparr>cookies = [],
      adapters = [(''https://'', HTTPAdapter), (''http://'', HTTPAdapter)],
      proxies = [],
      session_headers = library_headers ev\<rparr>"

text \<open>\<open>Client.__setup_session(headers, proxy)\<close>.\<close>

definition setup_session ::
  "env \<Rightarrow> world \<Rightarrow> pydict \<Rightarrow> string option \<Rightarrow> (error + Session) \<times> world" where
  "setup_session ev w headers proxy =
     (let s0 = (Session_new ev)\<lparr>cookies := []\<rparr> in
      case SSLCiphers_init ev w PNone (PInt 2)
             (Some \<lparr>total = 15, backoff_factor = 2 / 10,
                    status_forcelist = [429, 500, 502, 503, 504]\<rparr>) of
        (Inl e, w1) \<Rightarrow> (Inl e, w1)
      | (Inr ad, w1) \<Rightarrow>
         (let s1 = s0\<lparr>adapters := AList.update ''https://'' (SSLCiphersAdapter ad) (adapters s0)\<rparr>;
              s2 = (if truthy_str proxy
                    then s1\<lparr>proxies := [(''http'', str_of_opt proxy), (''https'', str_of_opt proxy)]\<rparr>
                    else s1)
          in (Inr (s2\<lparr>session_headers := headers_update ev (session_headers s2) headers\<rparr>), w1)))"

definition Client_init ::
  "env \<Rightarrow> world \<Rightarrow> Auth option \<Rightarrow> string option \<Rightarrow> pydict \<Rightarrow> string option
     \<Rightarrow> (error + Client) \<times> world" where
  "Client_init ev w au base_api default_headers proxy =
     (case setup_session ev w default_headers proxy of
        (Inl e, w1) \<Rightarrow> (Inl e, w1)
      | (Inr s, w1) \<Rightarrow>
          (Inr \<lparr>client_base_api = base_api, client_auth = au, client_session = s\<rparr>, w1))"

text \<open>
  Lines 167 to 170 of \<open>Client.request\<close>: with a controller attached, refresh when the
  token is expired, then merge the Authorization header under the caller's headers.
\<close>

definition auth_headers_for ::
  "env \<Rightarrow> Client \<Rightarrow> world \<Rightarrow> pydict option \<Rightarrow> (error + pydict option) \<times> Client \<times> world" where
  "auth_headers_for ev c w headers =
     (case client_auth c of
        None \<Rightarrow> (Inr headers, c, w)
      | Some a \<Rightarrow>
         (case is_token_expired ev a w of (expired, w1) \<Rightarrow>
           (case (if expired then auth ev a w1 None None else (Inr PNone, a, w1)) of
              (Inl e, a1, w2) \<Rightarrow> (Inl e, c\<lparr>client_auth := Some a1\<rparr>, w2)
            | (Inr _, a1, w2) \<Rightarrow>
                (Inr (deep_merge (Some (authorization ev a1)) headers),
                 c\<lparr>client_auth := Some a1\<rparr>, w2))))"

text \<open>
  \<open>Client.request(method, endpoint, headers, payload, params)\<close>. The result is
  \<open>Inr (Some r)\<close> for a response, \<open>Inr None\<close> for the final \<open>return None\<close>, \<open>Inl e\<close> for a
  raised exception.
\<close>

definition request ::
  "env \<Rightarrow> Client \<Rightarrow> world \<Rightarrow> string \<Rightarrow> string option \<Rightarrow> pydict option \<Rightarrow> pydict option
     \<Rightarrow> pydict option \<Rightarrow> (error + response option) \<times> Client \<times> world" where
  "request ev c w method endpoint headers payload params =
     (if \<not> truthy_str (client_base_api c) then (Inl (Exception ''Missing url base api''), c, w)
      else if \<not> truthy_str endpoint then (Inl (Exception ''Missing endpoint''), c, w)
      else
        (case auth_headers_for ev c w headers of
           (Inl e, c1, w1) \<Rightarrow> (Inl e, c1, w1)
         | (Inr headers1, c1, w1) \<Rightarrow>
            (if method = ''post'' then
               (case session_send ev w1
                       \<lparr>verb = POST, url = str_of_opt (client_base_api c) @ str_of_opt endpoint,
                        hdrs = headers1, data = payload, query = params\<rparr> of
                  (r, w2) \<Rightarrow> (map_sum id Some r, c1, w2))
             else if method = ''get'' then
               (case session_send ev w1
                       \<lparr>verb = GET, url = str_of_opt (client_base_api c) @ str_of_opt endpoint,
                        hdrs = headers1, data = payload, query = params\<rparr> of
                  (r, w2) \<Rightarrow> (map_sum id Some r, c1, w2))
             else (Inr None, c1, w1))))"

definition get ::
  "env \<Rightarrow> Client \<Rightarrow> world \<Rightarrow> string option \<Rightarrow> pydict option \<Rightarrow> pydict option
     \<Rightarrow> pydict option \<Rightarrow> (error + response option) \<times> Client \<times> world" where
  "get ev c w endpoint headers payload params =
     request ev c w ''get'' endpoint headers payload params"

definition post ::
  "env \<Rightarrow> Client \<Rightarrow> world \<Rightarrow> string option \<Rightarrow> pydict option \<Rightarrow> pydict option
     \<Rightarrow> pydict option \<Rightarrow> (error + response option) \<times> Client \<times> world" where
  "post ev c w endpoint headers payload params =
     request ev c w ''post'' endpoint headers payload params"

section \<open>Example configurations\<close>

text \<open>
  A concrete environment and client, on which the theorems below are evaluated: the
  clock starts at 1000 and advances by one per reading, the transport answers every
  call with status 200 and a complete token response, OpenSSL accepts every cipher
  string, and the numbers that occur are doubles already.
\<close>

definition example_token_response :: pyval where
  "example_token_response =
     PDict [(''access_token'', PStr ''T0''), (''expires_in'', PInt 3600),
            (''token_type'', PStr ''Bearer''), (''country'', PStr ''IT'')]"

definition example_env :: env where
  "example_env =
     \<lparr>clock = (\<lambda>n. 1000 + of_nat n),
      transport = (\<lambda>history c. Inr \<lparr>status_code = 200, json_body = Some example_token_response\<rparr>),
      set_ciphers_ok = (\<lambda>cs. True),
      repr_obj = (\<lambda>v. ''<object>''),
      headers_update = (\<lambda>old new. fold (\<lambda>(k, v). AList.update k v) new old),
      library_headers = [(''Accept'', PStr ''*/*'')],
      round_double = (\<lambda>x. x)\<rparr>"



definition example_world :: world where
  "example_world = \<lparr>calls = [], clock_reads = 0, tls_contexts = 0\<rparr>"

definition example_auth :: Auth where
  "example_auth =
     Auth_init (Some ''https://auth.example.com'') (Some ''/token'')
       (Some [(''Authorization'', PStr ''Basic dXNlcjpwdw=='')])
       (Some [(''grant_type'', PStr ''client_id'')])"

definition valid_auth :: Auth where
  "valid_auth =
     example_auth\<lparr>token := PStr ''T9'', expiry := Some 5000, token_type := PStr ''Bearer''\<rparr>"

definition example_client :: "Auth option \<Rightarrow> Client" where
  "example_client au =
     \<lparr>client_base_api = Some ''https://api.example.com'', client_auth = au,
      client_session = Session_new example_env\<rparr>"

section \<open>Properties of deep\_merge\<close>

text \<open>
  The loop, read through lookups: a key of \<open>dict2\<close> takes the recursive merge when both
  sides hold a dictionary under it and the value of \<open>dict2\<close> otherwise; every other key
  keeps what \<open>merged\<close> had.
\<close>

lemma map_of_merge_items:
  "distinct (map fst items) \<Longrightarrow>
   map_of (merge_items merged items) k =
     (case map_of items k of
        None \<Rightarrow> map_of merged k
      | Some v \<Rightarrow>
         (case (map_of merged k, v) of
            (Some (PDict a), PDict b) \<Rightarrow> Some (opt_to_val (deep_merge (Some a) (Some b)))
          | _ \<Rightarrow> Some v))"
proof (induction items arbitrary: merged)
  case Nil
  then show ?case by simp
next
  case (Cons p rest)
  obtain key val where p: "p = (key, val)" by (cases p)
  from Cons.prems p have d: "distinct (map fst rest)" and nk: "key \<notin> fst ` set rest"
    by auto
  from nk have none: "map_of rest key = None"
    by (simp add: map_of_eq_None_iff)
  show ?case
  proof (cases "k = key")
    case True
    then show ?thesis
      using none p Cons.IH [OF d]
      by (simp del: deep_merge.simps add: update_conv' split: option.splits pyval.splits)
  next
    case False
    then show ?thesis
      using p Cons.IH [OF d]
      by (simp del: deep_merge.simps add: update_conv' split: option.splits pyval.splits)
  qed
qed

lemma map_of_deep_merge:
  assumes "distinct (map fst (items_of dict2))"
  shows "map_of (items_of (deep_merge dict1 dict2)) k =
     (case map_of (items_of dict2) k of
        None \<Rightarrow> map_of (items_of dict1) k
      | Some v \<Rightarrow>
         (case (map_of (items_of dict1) k, v) of
            (Some (PDict a), PDict b) \<Rightarrow> Some (opt_to_val (deep_merge (Some a) (Some b)))
          | _ \<Rightarrow> Some v))"
proof (cases "truthy_dict dict1 \<and> truthy_dict dict2")
  case True
  then obtain d1 d2 where eq: "dict1 = Some d1" "dict2 = Some d2"
    by (auto simp: truthy_dict_def split: option.splits)
  from True eq have i3: "items_of (deep_merge dict1 dict2) = merge_items d1 d2"
    by (simp add: items_of_def)
  from eq have i1: "items_of dict1 = d1" and i2: "items_of dict2 = d2"
    by (simp_all add: items_of_def)
  from assms have "distinct (map fst d2)"
    unfolding i2 .
  then show ?thesis
    unfolding i1 i2 i3 by (rule map_of_merge_items)
next
  case False
  then show ?thesis
    by (auto simp: truthy_dict_def items_of_def split: option.splits)
qed

text \<open>
  Claim C6. \<open>deep_merge\<close> is a deep, right-biased recursive merge. For dictionaries with
  distinct keys: a key present in both operands whose two values are dictionaries holds
  the recursive \<open>deep_merge\<close> of the two; a key present in both whose values are not both
  dictionaries holds the value of the second operand; a key of one side only keeps its
  value. Merging \<open>{"a": {"x": 1, "y": 2}}\<close> with \<open>{"a": {"y": 3, "z": 4}}\<close> gives
  \<open>{"a": {"x": 1, "y": 3, "z": 4}}\<close>.
\<close>

theorem deep_merge_right_biased_recursive:
  assumes "distinct (map fst (items_of dict2))"
  shows
    "(\<forall>k a b. map_of (items_of dict1) k = Some (PDict a) \<and>
              map_of (items_of dict2) k = Some (PDict b) \<longrightarrow>
        map_of (items_of (deep_merge dict1 dict2)) k =
          Some (opt_to_val (deep_merge (Some a) (Some b)))) \<and>
     (\<forall>k v1 v2. map_of (items_of dict1) k = Some v1 \<and> map_of (items_of dict2) k = Some v2 \<and>
              \<not> (is_dict v1 \<and> is_dict v2) \<longrightarrow>
        map_of (items_of (deep_merge dict1 dict2)) k = Some v2) \<and>
     (\<forall>k. map_of (items_of dict1) k = None \<longrightarrow>
        map_of (items_of (deep_merge dict1 dict2)) k = map_of (items_of dict2) k) \<and>
     (\<forall>k. map_of (items_of dict2) k = None \<longrightarrow>
        map_of (items_of (deep_merge dict1 dict2)) k = map_of (items_of dict1) k) \<and>
     deep_merge (Some [(''a'', PDict [(''x'', PInt 1), (''y'', PInt 2)])])
                (Some [(''a'', PDict [(''y'', PInt 3), (''z'', PInt 4)])])
       = Some [(''a'', PDict [(''x'', PInt 1), (''y'', PInt 3), (''z'', PInt 4)])]"
proof -
  note look = map_of_deep_merge [OF assms, of dict1]
  have both: "map_of (items_of (deep_merge dict1 dict2)) k =
                Some (opt_to_val (deep_merge (Some a) (Some b)))"
    if "map_of (items_of dict1) k = Some (PDict a)" "map_of (items_of dict2) k = Some (PDict b)"
    for k a b
    using that look [of k] by simp
  have right: "map_of (items_of (deep_merge dict1 dict2)) k = Some v2"
    if "map_of (items_of dict1) k = Some v1" "map_of (items_of dict2) k = Some v2"
       "\<not> (is_dict v1 \<and> is_dict v2)"
    for k v1 v2
    using that look [of k] by (auto simp: is_dict_def split: pyval.splits)
  have only2: "map_of (items_of (deep_merge dict1 dict2)) k = map_of (items_of dict2) k"
    if "map_of (items_of dict1) k = None" for k
    using that look [of k] by (simp split: option.splits)
  have only1: "map_of (items_of (deep_merge dict1 dict2)) k = map_of (items_of dict1) k"
    if "map_of (items_of dict2) k = None" for k
    using that look [of k] by simp
  have example:
    "deep_merge (Some [(''a'', PDict [(''x'', PInt 1), (''y'', PInt 2)])])
                (Some [(''a'', PDict [(''y'', PInt 3), (''z'', PInt 4)])])
       = Some [(''a'', PDict [(''x'', PInt 1), (''y'', PInt 3), (''z'', PInt 4)])]"
    by (simp add: truthy_dict_def opt_to_val_def)
  from both right only2 only1 example show ?thesis
    by blast
qed

theorem deep_merge_right_biased_recursive_witness:
  "distinct (map fst (items_of (Some [(''a'', PDict [(''y'', PInt 3)]), (''b'', PInt 7)]))) \<and>
   map_of (items_of (deep_merge (Some [(''a'', PDict [(''x'', PInt 1)]), (''c'', PInt 5)])
                                (Some [(''a'', PDict [(''y'', PInt 3)]), (''b'', PInt 7)]))) ''a''
     = Some (PDict [(''x'', PInt 1), (''y'', PInt 3)]) \<and>
   map_of (items_of (deep_merge (Some [(''a'', PDict [(''x'', PInt 1)]), (''c'', PInt 5)])
                                (Some [(''a'', PDict [(''y'', PInt 3)]), (''b'', PInt 7)]))) ''b''
     = Some (PInt 7) \<and>
   map_of (items_of (deep_merge (Some [(''a'', PDict [(''x'', PInt 1)]), (''c'', PInt 5)])
                                (Some [(''a'', PDict [(''y'', PInt 3)]), (''b'', PInt 7)]))) ''c''
     = Some (PInt 5)"
proof -
  have h: "distinct (map fst (items_of (Some [(''a'', PDict [(''y'', PInt 3)]), (''b'', PInt 7)])))"
    by (simp add: items_of_def)
  show ?thesis
    using h deep_merge_right_biased_recursive
              [OF h, of "Some [(''a'', PDict [(''x'', PInt 1)]), (''c'', PInt 5)]"]
    by (simp add: items_of_def truthy_dict_def opt_to_val_def)
qed

text \<open>
  Claim C7. For every non-empty mapping \<open>m\<close> and every empty or absent mapping \<open>e\<close>,
  \<open>deep_merge(m, e)\<close> and \<open>deep_merge(e, m)\<close> are both \<open>m\<close>.
\<close>

theorem deep_merge_empty_identity:
  assumes "m \<noteq> []" and "e = None \<or> e = Some []"
  shows "deep_merge (Some m) e = Some m \<and> deep_merge e (Some m) = Some m"
  using assms by (auto simp: truthy_dict_def)

theorem deep_merge_empty_identity_witness:
  "[(''Accept'', PStr ''*/*'')] \<noteq> [] \<and>
   deep_merge (Some [(''Accept'', PStr ''*/*'')]) (Some []) = Some [(''Accept'', PStr ''*/*'')] \<and>
   deep_merge (Some []) (Some [(''Accept'', PStr ''*/*'')]) = Some [(''Accept'', PStr ''*/*'')]"
proof -
  have h: "[(''Accept'', PStr ''*/*'')] \<noteq> []" by simp
  show ?thesis
    using h deep_merge_empty_identity [OF h, of "Some []"] by simp
qed

text \<open>
  Claim C10. When both arguments of \<open>deep_merge\<close> are empty or absent, the result is
  \<open>None\<close> and not the empty mapping: the same result as merging no headers at all.
\<close>

theorem deep_merge_both_empty_is_None:
  assumes "e1 = None \<or> e1 = Some []" and "e2 = None \<or> e2 = Some []"
  shows "deep_merge e1 e2 = None \<and> deep_merge e1 e2 \<noteq> Some [] \<and>
         deep_merge e1 e2 = deep_merge None None"
  using assms by (auto simp: truthy_dict_def)

theorem deep_merge_both_empty_is_None_witness:
  "deep_merge (Some []) None = None \<and> deep_merge (Some []) (Some []) = None"
  using deep_merge_both_empty_is_None [of "Some []" None]
        deep_merge_both_empty_is_None [of "Some []" "Some []"]
  by simp

section \<open>Properties of Auth\<close>

text \<open>
  Claim C4, as the claim states it, fails on an empty token: with \<open>token = ""\<close> and an
  expiry of 2000 read at time 1000, the token is present, the expiry is present and
  strictly greater than the current time, and \<open>is_token_expired\<close> still returns true.
\<close>

theorem is_token_expired_empty_token_counterexample:
  "fst (is_token_expired example_env (example_auth\<lparr>token := PStr [], expiry := Some 2000\<rparr>)
          example_world) \<and>
   token (example_auth\<lparr>token := PStr [], expiry := Some 2000\<rparr>) \<noteq> PNone \<and>
   expiry (example_auth\<lparr>token := PStr [], expiry := Some 2000\<rparr>) = Some 2000 \<and>
   2000 > clock example_env (clock_reads example_world)"
  by (simp add: is_token_expired_def example_env_def example_world_def)

text \<open>
  Claim C4, amended. \<open>is_token_expired\<close> returns true exactly when the token is absent or
  otherwise falsy (an empty string, zero, False, an empty container), or the expiry is
  absent or zero, or the expiry is not strictly greater than the current time. When the
  expiry equals the current time the token counts as expired.
\<close>

theorem is_token_expired_exactly:
  "(fst (is_token_expired ev a w) \<longleftrightarrow>
      (\<not> truthy (token a) \<or> expiry a = None \<or> expiry a = Some 0 \<or>
       (\<exists>e. expiry a = Some e \<and> \<not> e > clock ev (clock_reads w)))) \<and>
   (expiry a = Some (clock ev (clock_reads w)) \<longrightarrow> fst (is_token_expired ev a w))"
  by (auto simp: is_token_expired_def truthy_float_def time_time_def split: option.splits)

theorem is_token_expired_exactly_witness:
  "expiry (valid_auth\<lparr>expiry := Some 1000\<rparr>) = Some (clock example_env (clock_reads example_world)) \<and>
   truthy (token (valid_auth\<lparr>expiry := Some 1000\<rparr>)) \<and>
   fst (is_token_expired example_env (valid_auth\<lparr>expiry := Some 1000\<rparr>) example_world)"
proof -
  have h: "expiry (valid_auth\<lparr>expiry := Some 1000\<rparr>)
             = Some (clock example_env (clock_reads example_world))"
    by (simp add: example_env_def example_world_def)
  have t: "truthy (token (valid_auth\<lparr>expiry := Some 1000\<rparr>))"
    by (simp add: valid_auth_def)
  from h t is_token_expired_exactly
             [of example_env "valid_auth\<lparr>expiry := Some 1000\<rparr>" example_world]
  show ?thesis by blast
qed



text \<open>
  The overflowing conversion is a live path: an \<open>expires_in\<close> beyond the range of a double
  makes the exchange fail after \<open>token\<close> has been assigned.
\<close>

lemma store_response_overflow:
  "store_response ev a w
     (PDict [(''access_token'', PStr ''T2''), (''expires_in'', PInt (2 ^ 1024))])
   = (Inl OverflowError, a\<lparr>token := PStr ''T2''\<rparr>, snd (time_time ev w))"
  by (simp add: store_response_def int_overflows_float_def split: prod.splits)


lemma store_response_calls:
  "store_response ev a w response = (r, a1, w1) \<Longrightarrow> calls w1 = calls w"
  by (auto simp: store_response_def time_time_def split: sum.splits prod.splits)

text \<open>An invocation of \<open>Auth.auth\<close> makes its one POST exactly when it is configured.\<close>

lemma auth_calls:
  assumes "auth ev a w headers payload = (r, a1, w1)"
  shows "(truthy_str (auth_base_api a) \<and> truthy_str (auth_endpoint a) \<longrightarrow>
            calls w1 = calls w @ [token_request a headers payload]) \<and>
         (\<not> (truthy_str (auth_base_api a) \<and> truthy_str (auth_endpoint a)) \<longrightarrow>
            calls w1 = calls w \<and> isl r)"
  using assms
  by (auto simp: auth_def session_send_def
           split: if_splits sum.splits prod.splits dest!: store_response_calls)




section \<open>Properties of Client.request\<close>

lemma calls_is_token_expired: "calls (snd (is_token_expired ev a w)) = calls w"
  by (simp add: is_token_expired_def time_time_def split: option.splits)

lemma auth_headers_for_valid:
  assumes "client_auth c = Some a" "\<not> fst (is_token_expired ev a w)"
  shows "auth_headers_for ev c w headers =
          (Inr (deep_merge (Some (authorization ev a)) headers), c, snd (is_token_expired ev a w))"
proof -
  obtain expired w1 where e: "is_token_expired ev a w = (expired, w1)"
    by (cases "is_token_expired ev a w")
  with assms(2) have ne: "\<not> expired" by simp
  from assms(1) have "c\<lparr>client_auth := Some a\<rparr> = c" by simp
  with assms(1) e ne show ?thesis
    by (simp add: auth_headers_for_def del: deep_merge.simps)
qed

text \<open>
  Claim C9. A call to \<open>request\<close> with \<open>base_api\<close> unset or empty, or with an empty or
  absent endpoint, raises the configuration exception and leaves the client and the
  world as they were: no token refresh, no clock reading, no outbound call. \<open>Auth.auth\<close>
  does the same when its own \<open>base_api\<close> or \<open>endpoint\<close> is missing.
\<close>

theorem missing_configuration_fails_first:
  "(\<not> truthy_str (client_base_api c) \<or> \<not> truthy_str endpoint \<longrightarrow>
      request ev c w method endpoint headers payload params =
        (Inl (Exception (if \<not> truthy_str (client_base_api c) then ''Missing url base api''
                         else ''Missing endpoint'')), c, w)) \<and>
   (\<not> truthy_str (auth_base_api a) \<or> \<not> truthy_str (auth_endpoint a) \<longrightarrow>
      auth ev a w headers payload =
        (Inl (Exception (if \<not> truthy_str (auth_base_api a) then ''Missing auth url base api''
                         else ''Missing auth endpoint'')), a, w))"
  by (simp add: request_def auth_def)

theorem missing_configuration_fails_first_witness:
  "\<not> truthy_str (Some []) \<and>
   \<not> truthy_str (auth_base_api (example_auth\<lparr>auth_base_api := None\<rparr>)) \<and>
   request example_env (example_client (Some example_auth)) example_world ''get'' (Some [])
       None None None
     = (Inl (Exception ''Missing endpoint''), example_client (Some example_auth), example_world) \<and>
   auth example_env (example_auth\<lparr>auth_base_api := None\<rparr>) example_world None None
     = (Inl (Exception ''Missing auth url base api''), example_auth\<lparr>auth_base_api := None\<rparr>,
        example_world)"
proof -
  have h1: "\<not> truthy_str (Some [])"
    by (simp add: truthy_str_def)
  have h2: "\<not> truthy_str (auth_base_api (example_auth\<lparr>auth_base_api := None\<rparr>))"
    by (simp add: truthy_str_def)
  have b: "truthy_str (client_base_api (example_client (Some example_auth)))"
    by (simp add: truthy_str_def example_client_def)
  from h1 h2 b
    missing_configuration_fails_first
      [of "example_client (Some example_auth)" "Some []" example_env example_world
          "''get''" None None None "example_auth\<lparr>auth_base_api := None\<rparr>"]
  show ?thesis by simp
qed

text \<open>
  Claim C1, as the claim states it, fails: \<open>request\<close> with method \<open>DELETE\<close> on a configured
  client without a controller raises nothing and returns \<open>None\<close>.
\<close>

theorem request_unsupported_method_counterexample:
  "fst (request example_env (example_client None) example_world ''DELETE''
          (Some ''/v1/items'') None None None) = Inr None"
  by (simp add: request_def auth_headers_for_def example_client_def truthy_str_def)

text \<open>
  Claim C1, amended. For every method string other than \<open>get\<close> and \<open>post\<close>, \<open>request\<close> with
  \<open>base_api\<close> set, a non-empty endpoint, and no controller attached or a token that is
  not expired makes no outbound call, leaves the client as it was and returns \<open>None\<close>;
  no exception is raised.
\<close>

theorem request_unsupported_method_returns_None:
  assumes "method \<noteq> ''get''" and "method \<noteq> ''post''"
    and "truthy_str (client_base_api c)" and "truthy_str endpoint"
    and "client_auth c = None \<or> (\<exists>a. client_auth c = Some a \<and> \<not> fst (is_token_expired ev a w))"
  shows "fst (request ev c w method endpoint headers payload params) = Inr None \<and>
         fst (snd (request ev c w method endpoint headers payload params)) = c \<and>
         calls (snd (snd (request ev c w method endpoint headers payload params))) = calls w"
proof (cases "client_auth c")
  case None
  with assms show ?thesis
    by (simp add: request_def auth_headers_for_def)
next
  case (Some a)
  with assms(5) have v: "\<not> fst (is_token_expired ev a w)" by simp
  show ?thesis
    using assms(1-4) auth_headers_for_valid [OF Some v]
    by (simp add: request_def calls_is_token_expired del: deep_merge.simps)
qed

theorem request_unsupported_method_returns_None_witness:
  "''PUT'' \<noteq> ''get'' \<and> ''PUT'' \<noteq> ''post'' \<and>
   truthy_str (client_base_api (example_client (Some valid_auth))) \<and>
   truthy_str (Some ''/v1/items'') \<and>
   \<not> fst (is_token_expired example_env valid_auth example_world) \<and>
   fst (request example_env (example_client (Some valid_auth)) example_world ''PUT''
          (Some ''/v1/items'') None None None) = Inr None \<and>
   calls (snd (snd (request example_env (example_client (Some valid_auth)) example_world ''PUT''
          (Some ''/v1/items'') None None None))) = []"
proof -
  have m: "''PUT'' \<noteq> ''get''" "''PUT'' \<noteq> ''post''"
    by simp_all
  have b: "truthy_str (client_base_api (example_client (Some valid_auth)))"
    by (simp add: truthy_str_def example_client_def)
  have e: "truthy_str (Some ''/v1/items'')"
    by (simp add: truthy_str_def)
  have v: "\<not> fst (is_token_expired example_env valid_auth example_world)"
    by (simp add: is_token_expired_def valid_auth_def truthy_float_def time_time_def
          example_env_def example_world_def)
  have au: "client_auth (example_client (Some valid_auth)) = None \<or>
            (\<exists>a. client_auth (example_client (Some valid_auth)) = Some a \<and>
                 \<not> fst (is_token_expired example_env a example_world))"
    using v by (simp add: example_client_def)
  have w0: "calls example_world = []"
    by (simp add: example_world_def)
  from m b e v w0
    request_unsupported_method_returns_None
      [OF m b e au, where headers = None and payload = None and params = None]
  show ?thesis by simp
qed

text \<open>
  The Authorization entry of the merged headers: the caller's value when the caller set
  one, the controller's value otherwise.
\<close>

lemma merge_items_other_key:
  "map_of items k = None \<Longrightarrow> map_of (merge_items merged items) k = map_of merged k"
proof (induction items arbitrary: merged)
  case Nil
  then show ?case by simp
next
  case (Cons p rest)
  obtain key val where p: "p = (key, val)" by (cases p)
  with Cons.prems have "k \<noteq> key" "map_of rest k = None"
    by (auto split: if_splits)
  with Cons.IH p show ?case
    by (simp del: deep_merge.simps add: update_conv' split: option.splits pyval.splits)
qed

lemma authorization_override:
  "(\<forall>v. distinct (map fst (items_of headers)) \<and>
        map_of (items_of headers) ''Authorization'' = Some v \<longrightarrow>
        map_of (items_of (deep_merge (Some (authorization ev a)) headers)) ''Authorization''
          = Some v) \<and>
   (map_of (items_of headers) ''Authorization'' = None \<longrightarrow>
        map_of (items_of (deep_merge (Some (authorization ev a)) headers)) ''Authorization''
          = Some (PStr (get_auth ev a)))"
proof -
  have caller: "map_of (items_of (deep_merge (Some (authorization ev a)) headers)) ''Authorization''
                  = Some v"
    if "distinct (map fst (items_of headers))" "map_of (items_of headers) ''Authorization'' = Some v"
    for v
    using map_of_deep_merge [OF that(1), of "Some (authorization ev a)" "''Authorization''"] that(2)
    by (simp add: items_of_def authorization_def)
  have inherited: "map_of (items_of (deep_merge (Some (authorization ev a)) headers)) ''Authorization''
                     = Some (PStr (get_auth ev a))"
    if none: "map_of (items_of headers) ''Authorization'' = None"
  proof (cases "truthy_dict headers")
    case True
    then obtain h where h: "headers = Some h" "h \<noteq> []"
      by (auto simp: truthy_dict_def split: option.splits)
    from none h have "map_of h ''Authorization'' = None"
      by (simp add: items_of_def)
    from merge_items_other_key [OF this, of "authorization ev a"] h show ?thesis
      by (simp add: items_of_def truthy_dict_def authorization_def)
  next
    case False
    then show ?thesis
      by (simp add: items_of_def truthy_dict_def authorization_def)
  qed
  from caller inherited show ?thesis by blast
qed

text \<open>
  Claim C3, as the claim states it, fails on a client whose \<open>base_api\<close> is unset: with a
  controller attached and its token expired, \<open>request\<close> raises the configuration
  exception first and no token exchange takes place; client and world are unchanged.
\<close>

theorem request_unconfigured_no_exchange_counterexample:
  "client_auth ((example_client (Some example_auth))\<lparr>client_base_api := None\<rparr>)
     = Some example_auth \<and>
   fst (is_token_expired example_env example_auth example_world) \<and>
   request example_env ((example_client (Some example_auth))\<lparr>client_base_api := None\<rparr>)
           example_world ''get'' (Some ''/v1/data'') None None None
     = (Inl (Exception ''Missing url base api''),
        (example_client (Some example_auth))\<lparr>client_base_api := None\<rparr>, example_world) \<and>
   calls example_world = []"
  by (simp add: request_def truthy_str_def example_client_def is_token_expired_def
        example_auth_def Auth_init_def example_world_def)

text \<open>
  Claim C3, amended. For every client with a controller attached, \<open>base_api\<close> set and a
  non-empty endpoint, and for every method string: when \<open>is_token_expired\<close> is false the
  call runs no token exchange and leaves the client as it was; when it is true,
  \<open>Auth.auth\<close> runs exactly once, before anything is dispatched, and the world after the
  call is the world that run leaves, with the dispatch appended. That run makes the one
  token POST when the controller's own \<open>base_api\<close> and \<open>endpoint\<close> are set, and none
  otherwise. If it fails, its error is the result and nothing is dispatched. The
  dispatch is a single call for \<open>get\<close> and \<open>post\<close> and no call for any other method; its
  headers are \<open>deep_merge\<close> of \<open>{"Authorization": "<token_type> <token>"}\<close> (the controller's
  state after the refresh) with the caller's headers as the second operand, so a
  caller-set \<open>Authorization\<close> wins and an absent one is inherited.
\<close>

theorem request_refreshes_before_dispatch:
  assumes cfg: "truthy_str (client_base_api c)" "truthy_str endpoint"
    and att: "client_auth c = Some a"
    and r: "request ev c w method endpoint headers payload params = (res, c1, w1)"
    and x: "auth ev a (snd (is_token_expired ev a w)) None None = (ares, a1, w2)"
  shows
    "(\<not> fst (is_token_expired ev a w) \<longrightarrow>
        c1 = c \<and>
        w1 = (snd (is_token_expired ev a w))
               \<lparr>calls := calls w @
                  (if method = ''post'' \<or> method = ''get'' then
                     [\<lparr>verb = (if method = ''post'' then POST else GET),
                       url = str_of_opt (client_base_api c) @ str_of_opt endpoint,
                       hdrs = deep_merge (Some (authorization ev a)) headers,
                       data = payload, query = params\<rparr>]
                   else [])\<rparr>) \<and>
     (fst (is_token_expired ev a w) \<longrightarrow>
        c1 = c\<lparr>client_auth := Some a1\<rparr> \<and>
        (truthy_str (auth_base_api a) \<and> truthy_str (auth_endpoint a) \<longrightarrow>
           calls w2 = calls w @ [token_request a None None]) \<and>
        (\<not> (truthy_str (auth_base_api a) \<and> truthy_str (auth_endpoint a)) \<longrightarrow>
           calls w2 = calls w \<and> isl ares)) \<and>
     (fst (is_token_expired ev a w) \<and> isl ares \<longrightarrow>
        res = Inl (projl ares) \<and> w1 = w2) \<and>
     (fst (is_token_expired ev a w) \<and> \<not> isl ares \<longrightarrow>
        calls w2 = calls w @ [token_request a None None] \<and>
        w1 = w2\<lparr>calls := calls w2 @
                  (if method = ''post'' \<or> method = ''get'' then
                     [\<lparr>verb = (if method = ''post'' then POST else GET),
                       url = str_of_opt (client_base_api c) @ str_of_opt endpoint,
                       hdrs = deep_merge (Some (authorization ev a1)) headers,
                       data = payload, query = params\<rparr>]
                   else [])\<rparr>) \<and>
     (\<forall>b v. distinct (map fst (items_of headers)) \<and>
            map_of (items_of headers) ''Authorization'' = Some v \<longrightarrow>
            map_of (items_of (deep_merge (Some (authorization ev b)) headers)) ''Authorization''
              = Some v) \<and>
     (\<forall>b. map_of (items_of headers) ''Authorization'' = None \<longrightarrow>
            map_of (items_of (deep_merge (Some (authorization ev b)) headers)) ''Authorization''
              = Some (PStr (get_auth ev b))) \<and>
     (\<forall>b tt tk. token_type b = PStr tt \<and> token b = PStr tk \<longrightarrow>
            get_auth ev b = tt @ '' '' @ tk)"
proof -
  obtain expired w0 where e: "is_token_expired ev a w = (expired, w0)"
    by (cases "is_token_expired ev a w")
  have cw0: "calls w0 = calls w"
    using calls_is_token_expired [of ev a w] e by simp
  from x e have x0: "auth ev a w0 None None = (ares, a1, w2)" by simp
  note ac = auth_calls [OF x0, unfolded cw0]
  have valid0: "c1 = c \<and>
        w1 = w0\<lparr>calls := calls w0 @
                  (if method = ''post'' \<or> method = ''get'' then
                     [\<lparr>verb = (if method = ''post'' then POST else GET),
                       url = str_of_opt (client_base_api c) @ str_of_opt endpoint,
                       hdrs = deep_merge (Some (authorization ev a)) headers,
                       data = payload, query = params\<rparr>]
                   else [])\<rparr>"
    if "\<not> expired"
  proof -
    from att have "c\<lparr>client_auth := Some a\<rparr> = c" by simp
    with that e att cfg r show ?thesis
      by (auto simp: request_def auth_headers_for_def session_send_def
               simp del: deep_merge.simps)
  qed
  note valid = valid0 [unfolded cw0]
  have ran: "c1 = c\<lparr>client_auth := Some a1\<rparr>" if expired
    using that e att cfg r x0
    by (cases ares)
       (auto simp: request_def auth_headers_for_def session_send_def
             simp del: deep_merge.simps split: if_splits)
  have failed: "res = Inl (projl ares) \<and> w1 = w2" if expired "isl ares"
    using that e att cfg r x0
    by (cases ares)
       (auto simp: request_def auth_headers_for_def simp del: deep_merge.simps)
  have succeeded: "calls w2 = calls w @ [token_request a None None] \<and>
        w1 = w2\<lparr>calls := calls w2 @
                  (if method = ''post'' \<or> method = ''get'' then
                     [\<lparr>verb = (if method = ''post'' then POST else GET),
                       url = str_of_opt (client_base_api c) @ str_of_opt endpoint,
                       hdrs = deep_merge (Some (authorization ev a1)) headers,
                       data = payload, query = params\<rparr>]
                   else [])\<rparr>"
    if expired "\<not> isl ares"
  proof -
    from that(2) obtain v where v: "ares = Inr v" by (cases ares) auto
    with ac have "calls w2 = calls w @ [token_request a None None]"
      by auto
    moreover from that(1) v e att cfg r x0
    have "w1 = w2\<lparr>calls := calls w2 @
                  (if method = ''post'' \<or> method = ''get'' then
                     [\<lparr>verb = (if method = ''post'' then POST else GET),
                       url = str_of_opt (client_base_api c) @ str_of_opt endpoint,
                       hdrs = deep_merge (Some (authorization ev a1)) headers,
                       data = payload, query = params\<rparr>]
                   else [])\<rparr>"
      by (auto simp: request_def auth_headers_for_def session_send_def
               simp del: deep_merge.simps)
    ultimately show ?thesis by simp
  qed
  have fmt: "get_auth ev b = tt @ '' '' @ tk" if "token_type b = PStr tt" "token b = PStr tk"
    for b tt tk
    using that by (simp add: get_auth_def)
  from e have fe: "fst (is_token_expired ev a w) = expired"
    and se: "snd (is_token_expired ev a w) = w0"
    by simp_all
  from valid ran ac failed succeeded fmt authorization_override [of headers ev] show ?thesis
    unfolding fe se by blast
qed

theorem request_refreshes_before_dispatch_witness:
  "truthy_str (client_base_api (example_client (Some example_auth))) \<and>
   truthy_str (Some ''/v1/data'') \<and>
   fst (is_token_expired example_env example_auth example_world) \<and>
   calls (snd (snd (request example_env (example_client (Some example_auth)) example_world
                      ''get'' (Some ''/v1/data'') None None None)))
     = [token_request example_auth None None,
        \<lparr>verb = GET, url = ''https://api.example.com/v1/data'',
         hdrs = Some [(''Authorization'', PStr ''Bearer T0'')],
         data = None, query = None\<rparr>] \<and>
   calls (snd (snd (request example_env (example_client (Some example_auth)) example_world
                      ''DELETE'' (Some ''/v1/data'') None None None)))
     = [token_request example_auth None None] \<and>
   \<not> fst (is_token_expired example_env valid_auth example_world) \<and>
   calls (snd (snd (request example_env (example_client (Some valid_auth)) example_world
                      ''post'' (Some ''/v1/data'') (Some [(''Authorization'', PStr ''Custom'')])
                      None None)))
     = [\<lparr>verb = POST, url = ''https://api.example.com/v1/data'',
         hdrs = Some [(''Authorization'', PStr ''Custom'')],
         data = None, query = None\<rparr>]"
proof -
  have b1: "truthy_str (client_base_api (example_client (Some example_auth)))"
    and b2: "truthy_str (client_base_api (example_client (Some valid_auth)))"
    and ep: "truthy_str (Some ''/v1/data'')"
    by (simp_all add: truthy_str_def example_client_def)
  have a1: "client_auth (example_client (Some example_auth)) = Some example_auth"
    and a2: "client_auth (example_client (Some valid_auth)) = Some valid_auth"
    by (simp_all add: example_client_def)
  have ex1: "is_token_expired example_env example_auth example_world = (True, example_world)"
    by (simp add: is_token_expired_def example_auth_def Auth_init_def)
  have ex2: "\<not> fst (is_token_expired example_env valid_auth example_world)"
    by (simp add: is_token_expired_def valid_auth_def truthy_float_def time_time_def
          example_env_def example_world_def)
  have au: "auth example_env example_auth example_world None None
              = (Inr example_token_response,
                 example_auth\<lparr>token := PStr ''T0'', expiry := Some 4600,
                                token_type := PStr ''Bearer'', country := PStr ''IT''\<rparr>,
                 example_world\<lparr>calls := [token_request example_auth None None],
                                 clock_reads := 1\<rparr>)"
    by (simp add: auth_def store_response_def example_env_def example_auth_def Auth_init_def
          truthy_str_def session_send_def response_json_def time_time_def
          example_token_response_def example_world_def int_overflows_float_def)
  have hd: "authorization example_env
              (example_auth\<lparr>token := PStr ''T0'', expiry := Some 4600,
                             token_type := PStr ''Bearer'', country := PStr ''IT''\<rparr>)
              = [(''Authorization'', PStr ''Bearer T0'')]"
    by (simp add: authorization_def get_auth_def)
  have w0: "calls example_world = []"
    by (simp add: example_world_def)
  have x1: "auth example_env example_auth
              (snd (is_token_expired example_env example_auth example_world)) None None
              = (Inr example_token_response,
                 example_auth\<lparr>token := PStr ''T0'', expiry := Some 4600,
                                token_type := PStr ''Bearer'', country := PStr ''IT''\<rparr>,
                 example_world\<lparr>calls := [token_request example_auth None None],
                                 clock_reads := 1\<rparr>)"
    using au ex1 by simp
  have r1: "request example_env (example_client (Some example_auth)) example_world
              ''get'' (Some ''/v1/data'') None None None
            = (fst (request example_env (example_client (Some example_auth)) example_world
                      ''get'' (Some ''/v1/data'') None None None),
               fst (snd (request example_env (example_client (Some example_auth)) example_world
                      ''get'' (Some ''/v1/data'') None None None)),
               snd (snd (request example_env (example_client (Some example_auth)) example_world
                      ''get'' (Some ''/v1/data'') None None None)))"
    by simp
  have first:
    "calls (snd (snd (request example_env (example_client (Some example_auth)) example_world
                      ''get'' (Some ''/v1/data'') None None None)))
     = [token_request example_auth None None,
        \<lparr>verb = GET, url = ''https://api.example.com/v1/data'',
         hdrs = Some [(''Authorization'', PStr ''Bearer T0'')],
         data = None, query = None\<rparr>]"
    using request_refreshes_before_dispatch [OF b1 ep a1 r1 x1] ex1 hd w0
    by (simp add: truthy_dict_def example_client_def str_of_opt_def)
  have r3: "request example_env (example_client (Some example_auth)) example_world
              ''DELETE'' (Some ''/v1/data'') None None None
            = (fst (request example_env (example_client (Some example_auth)) example_world
                      ''DELETE'' (Some ''/v1/data'') None None None),
               fst (snd (request example_env (example_client (Some example_auth)) example_world
                      ''DELETE'' (Some ''/v1/data'') None None None)),
               snd (snd (request example_env (example_client (Some example_auth)) example_world
                      ''DELETE'' (Some ''/v1/data'') None None None)))"
    by simp
  have third:
    "calls (snd (snd (request example_env (example_client (Some example_auth)) example_world
                      ''DELETE'' (Some ''/v1/data'') None None None)))
     = [token_request example_auth None None]"
    using request_refreshes_before_dispatch [OF b1 ep a1 r3 x1] ex1 w0
    by simp
  obtain ares a9 w9 where x2: "auth example_env valid_auth
              (snd (is_token_expired example_env valid_auth example_world)) None None
              = (ares, a9, w9)"
    by (rule prod_cases3)
  have r2: "request example_env (example_client (Some valid_auth)) example_world
              ''post'' (Some ''/v1/data'') (Some [(''Authorization'', PStr ''Custom'')]) None None
            = (fst (request example_env (example_client (Some valid_auth)) example_world
                      ''post'' (Some ''/v1/data'') (Some [(''Authorization'', PStr ''Custom'')])
                      None None),
               fst (snd (request example_env (example_client (Some valid_auth)) example_world
                      ''post'' (Some ''/v1/data'') (Some [(''Authorization'', PStr ''Custom'')])
                      None None)),
               snd (snd (request example_env (example_client (Some valid_auth)) example_world
                      ''post'' (Some ''/v1/data'') (Some [(''Authorization'', PStr ''Custom'')])
                      None None)))"
    by simp
  have second:
    "calls (snd (snd (request example_env (example_client (Some valid_auth)) example_world
                      ''post'' (Some ''/v1/data'') (Some [(''Authorization'', PStr ''Custom'')])
                      None None)))
     = [\<lparr>verb = POST, url = ''https://api.example.com/v1/data'',
         hdrs = Some [(''Authorization'', PStr ''Custom'')],
         data = None, query = None\<rparr>]"
    using request_refreshes_before_dispatch [OF b2 ep a2 r2 x2] ex2 w0
    by (simp add: truthy_dict_def example_client_def str_of_opt_def authorization_def)
  show ?thesis
    using b1 ep ex1 ex2 first second third by simp
qed

section \<open>Properties of SSLCiphers and of the session set-up\<close>

lemma SSLCiphers_init_ok:
  assumes "\<not> truthy cipher_list \<or> (\<exists>s. cipher_list = PStr s \<and> \<not> sublist ''@SECLEVEL'' s)"
    and "0 \<le> n" and "n \<le> 5"
    and "set_ciphers_ok ev ((if truthy cipher_list then py_str ev cipher_list else ''DEFAULT'')
                            @ '':@SECLEVEL='' @ str_int n)"
  shows "SSLCiphers_init ev w cipher_list (PInt n) r =
          (Inr \<lparr>ssl_ctx = \<lparr>check_hostname = False,
                           ciphers = (if truthy cipher_list then py_str ev cipher_list
                                      else ''DEFAULT'') @ '':@SECLEVEL='' @ str_int n\<rparr>,
                max_retries = r\<rparr>,
           w\<lparr>tls_contexts := Suc (tls_contexts w)\<rparr>)"
  using assms
  by (auto simp: SSLCiphers_init_def is_str_def is_int_def in_range6_def Let_def)

lemma SSLCiphers_init_level:
  assumes "n < 0 \<or> 5 < n"
  shows "\<exists>m. SSLCiphers_init ev w cipher_list (PInt n) r = (Inl (TypeError m), w) \<or>
             SSLCiphers_init ev w cipher_list (PInt n) r = (Inl (ValueError m), w)"
  using assms
  by (auto simp: SSLCiphers_init_def is_str_def is_int_def in_range6_def Let_def)

lemma SSLCiphers_init_seclevel:
  assumes "sublist ''@SECLEVEL'' s"
  shows "SSLCiphers_init ev w (PStr s) level r =
          (Inl (ValueError
             ''You must not specify the Security Level manually in the cipher list.''), w)"
proof -
  from assms have "s \<noteq> []" by auto
  with assms show ?thesis
    by (simp add: SSLCiphers_init_def is_str_def)
qed

lemma SSLCiphers_init_not_str:
  assumes "truthy cipher_list" and "\<not> is_str cipher_list"
  shows "SSLCiphers_init ev w cipher_list level r =
          (Inl (TypeError (''Expected cipher_list to be a str, not '' @ py_repr ev cipher_list)), w)"
  using assms by (simp add: SSLCiphers_init_def)

lemma SSLCiphers_init_no_context:
  assumes "fst (SSLCiphers_init ev w cipher_list level r) = Inl e" and "e \<noteq> SSLError"
  shows "snd (SSLCiphers_init ev w cipher_list level r) = w"
  using assms
  by (auto simp: SSLCiphers_init_def Let_def split: if_splits)

text \<open>
  Claim C5, as the claim states it, fails on a cipher list that is provided, is not a
  string and is falsy: with the empty list as \<open>cipher_list\<close> and level 2 the construction
  succeeds, on the default cipher string.
\<close>

theorem SSLCiphers_init_falsy_cipher_list_counterexample:
  "fst (SSLCiphers_init example_env example_world (PList []) (PInt 2) None) =
     Inr \<lparr>ssl_ctx = \<lparr>check_hostname = False, ciphers = ''DEFAULT:@SECLEVEL=2''\<rparr>,
          max_retries = None\<rparr>"
  by (simp add: SSLCiphers_init_def is_str_def is_int_def in_range6_def example_env_def
        str_int_def digit_char_def)

text \<open>
  Claim C5, amended. \<open>SSLCiphers.__init__\<close> succeeds for every integer security level in
  [0,5] when the cipher list is falsy (absent or empty) or a string without
  \<open>@SECLEVEL\<close> and OpenSSL accepts the resulting cipher string; it fails with a
  \<open>TypeError\<close> or \<open>ValueError\<close> for every other integer level, with a \<open>ValueError\<close> whenever
  the cipher list is a string containing \<open>@SECLEVEL\<close>, and with a \<open>TypeError\<close> whenever
  the cipher list is truthy and not a string. In each of these failures no TLS
  context has been created.
\<close>

theorem SSLCiphers_init_validation:
  "((\<not> truthy cipher_list \<or> (\<exists>s. cipher_list = PStr s \<and> \<not> sublist ''@SECLEVEL'' s)) \<and>
    0 \<le> n \<and> n \<le> 5 \<and>
    set_ciphers_ok ev ((if truthy cipher_list then py_str ev cipher_list else ''DEFAULT'')
                       @ '':@SECLEVEL='' @ str_int n) \<longrightarrow>
      SSLCiphers_init ev w cipher_list (PInt n) r =
        (Inr \<lparr>ssl_ctx = \<lparr>check_hostname = False,
                         ciphers = (if truthy cipher_list then py_str ev cipher_list
                                    else ''DEFAULT'') @ '':@SECLEVEL='' @ str_int n\<rparr>,
              max_retries = r\<rparr>,
         w\<lparr>tls_contexts := Suc (tls_contexts w)\<rparr>)) \<and>
   (n < 0 \<or> 5 < n \<longrightarrow>
      (\<exists>m. SSLCiphers_init ev w cipher_list (PInt n) r = (Inl (TypeError m), w) \<or>
           SSLCiphers_init ev w cipher_list (PInt n) r = (Inl (ValueError m), w))) \<and>
   (\<forall>s. sublist ''@SECLEVEL'' s \<longrightarrow>
      SSLCiphers_init ev w (PStr s) level r =
        (Inl (ValueError
           ''You must not specify the Security Level manually in the cipher list.''), w)) \<and>
   (truthy cipher_list \<and> \<not> is_str cipher_list \<longrightarrow>
      SSLCiphers_init ev w cipher_list level r =
        (Inl (TypeError (''Expected cipher_list to be a str, not '' @ py_repr ev cipher_list)), w)) \<and>
   (\<forall>e. fst (SSLCiphers_init ev w cipher_list level r) = Inl e \<and> e \<noteq> SSLError \<longrightarrow>
      snd (SSLCiphers_init ev w cipher_list level r) = w)"
proof -
  have ok: "SSLCiphers_init ev w cipher_list (PInt n) r =
        (Inr \<lparr>ssl_ctx = \<lparr>check_hostname = False,
                         ciphers = (if truthy cipher_list then py_str ev cipher_list
                                    else ''DEFAULT'') @ '':@SECLEVEL='' @ str_int n\<rparr>,
              max_retries = r\<rparr>,
         w\<lparr>tls_contexts := Suc (tls_contexts w)\<rparr>)"
    if "(\<not> truthy cipher_list \<or> (\<exists>s. cipher_list = PStr s \<and> \<not> sublist ''@SECLEVEL'' s)) \<and>
        0 \<le> n \<and> n \<le> 5 \<and>
        set_ciphers_ok ev ((if truthy cipher_list then py_str ev cipher_list else ''DEFAULT'')
                           @ '':@SECLEVEL='' @ str_int n)"
    using that by (intro SSLCiphers_init_ok) simp_all
  show ?thesis
    using ok SSLCiphers_init_level [of n ev w cipher_list r]
      SSLCiphers_init_seclevel [of _ ev w level r]
      SSLCiphers_init_not_str [of cipher_list ev w level r]
      SSLCiphers_init_no_context [of ev w cipher_list level r]
    by blast
qed

theorem SSLCiphers_init_validation_witness:
  "\<not> sublist ''@SECLEVEL'' ''ECDHE+AESGCM'' \<and>
   SSLCiphers_init example_env example_world (PStr ''ECDHE+AESGCM'') (PInt 3) None =
     (Inr \<lparr>ssl_ctx = \<lparr>check_hostname = False, ciphers = ''ECDHE+AESGCM:@SECLEVEL=3''\<rparr>,
           max_retries = None\<rparr>,
      example_world\<lparr>tls_contexts := 1\<rparr>) \<and>
   sublist ''@SECLEVEL'' ''AES:@SECLEVEL=1'' \<and>
   SSLCiphers_init example_env example_world (PStr ''AES:@SECLEVEL=1'') (PInt 3) None =
     (Inl (ValueError ''You must not specify the Security Level manually in the cipher list.''),
      example_world)"
proof -
  have n1: "\<not> sublist ''@SECLEVEL'' ''ECDHE+AESGCM''"
    by (simp add: sublist_code)
  have n2: "sublist ''@SECLEVEL'' ''AES:@SECLEVEL=1''"
    by (simp add: sublist_code)
  have acc: "set_ciphers_ok example_env ''ECDHE+AESGCM:@SECLEVEL=3''"
    by (simp add: example_env_def)
  have s3: "str_int 3 = ''3''"
    by (simp add: str_int_def digit_char_def)
  have t0: "tls_contexts example_world = 0"
    by (simp add: example_world_def)
  from n1 n2 acc s3 t0
    SSLCiphers_init_validation
      [of "PStr ''ECDHE+AESGCM''" 3 example_env example_world None "PInt 3"]
  show ?thesis
    by simp
qed

text \<open>
  What \<open>Client.__setup_session\<close> mounts: on \<open>https://\<close> the \<open>SSLCiphers\<close> adapter at security
  level 2, carrying the \<open>Retry\<close> object of the source. The retry loop that reads this
  object belongs to the transport library and is not modelled.
\<close>

lemma setup_session_adapter:
  assumes "setup_session ev w headers proxy = (Inr s, w1)"
  shows "map_of (adapters s) ''https://'' =
           Some (SSLCiphersAdapter
                  \<lparr>ssl_ctx = \<lparr>check_hostname = False, ciphers = ''DEFAULT:@SECLEVEL=2''\<rparr>,
                   max_retries = Some \<lparr>total = 15, backoff_factor = 2 / 10,
                                        status_forcelist = [429, 500, 502, 503, 504]\<rparr>\<rparr>)"
  using assms
  by (auto simp: setup_session_def SSLCiphers_init_def is_int_def in_range6_def Let_def
        Session_new_def str_int_def digit_char_def split: if_splits)

lemma Client_init_succeeds:
  assumes "set_ciphers_ok ev ''DEFAULT:@SECLEVEL=2''"
  shows "\<exists>c w1. Client_init ev w au base_api default_headers proxy = (Inr c, w1)"
  using assms
  by (simp add: Client_init_def setup_session_def SSLCiphers_init_def is_int_def in_range6_def
        Let_def Session_new_def str_int_def digit_char_def)

end
